theory Spec2Isabelle
  imports Complex_Main
begin

section \<open>Waveform synthesis of \<open>create_test_audio.py\<close>\<close>

text \<open>
  The script computes with IEEE doubles and numpy arrays. The model idealises a double
  as a \<open>real\<close> and a one-dimensional array as a \<open>real list\<close>; a Python \<open>int\<close> is an
  \<open>int\<close>. Every numpy call that can raise is a function into \<open>pyerror + 'a\<close>.
\<close>

datatype pyerror = ValueError | OSError | RuntimeError | CalledProcessError | FileNotFoundError

text \<open>Python's \<open>int(x)\<close> on a float truncates toward zero.\<close>

definition py_int :: "real \<Rightarrow> int" where
  "py_int x = (if 0 \<le> x then \<lfloor>x\<rfloor> else \<lceil>x\<rceil>)"

text \<open>
  \<open>np.linspace(start, stop, num)\<close> with the default \<open>endpoint=True\<close>: a negative
  \<open>num\<close> raises \<open>ValueError\<close>, \<open>num = 1\<close> gives \<open>[start]\<close>, otherwise the step is
  \<open>(stop - start) / (num - 1)\<close>.
\<close>

definition linspace :: "real \<Rightarrow> real \<Rightarrow> int \<Rightarrow> pyerror + real list" where
  "linspace start stop num =
     (if num < 0 then Inl ValueError
      else if num = 1 then Inr [start]
      else Inr (map (\<lambda>i. start + real i * ((stop - start) / real_of_int (num - 1)))
                  [0..<nat num]))"

text \<open>
  A bound \<open>i\<close> of a Python slice over \<open>n\<close> elements: a negative bound counts from the
  end, and both are clipped to \<open>[0, n]\<close>.
\<close>

definition slice_index :: "nat \<Rightarrow> int \<Rightarrow> nat" where
  "slice_index n i = (if i < 0 then nat (max (int n + i) 0) else nat (min i (int n)))"

text \<open>
  \<open>a[lo:hi] *= b\<close> on numpy arrays. The slice is a view of \<open>hi - lo\<close> elements; the
  product is written back in place when \<open>b\<close> has as many elements, or a single element
  that is broadcast over the view. Any other shape raises \<open>ValueError\<close>.
\<close>

definition imul_slice :: "real list \<Rightarrow> nat \<Rightarrow> nat \<Rightarrow> real list \<Rightarrow> pyerror + real list" where
  "imul_slice a lo hi b =
     (let view = take (hi - lo) (drop lo a) in
      if length b = length view
        then Inr (take lo a @ map2 (*) view b @ drop (lo + length view) a)
      else if length b = 1
        then Inr (take lo a @ map (\<lambda>x. x * hd b) view @ drop (lo + length view) a)
      else Inl ValueError)"

text \<open>Sequencing of calls that may raise: the first error ends the computation.\<close>

definition bind_err :: "pyerror + 'a \<Rightarrow> ('a \<Rightarrow> pyerror + 'b) \<Rightarrow> pyerror + 'b" where
  "bind_err m f = (case m of Inl e \<Rightarrow> Inl e | Inr x \<Rightarrow> f x)"

text \<open>
  Lines 21 to 27 of \<open>create_test_audio\<close>. The function takes no arguments; the five
  literals of the script (\<open>sample_rate\<close>, \<open>duration\<close>, \<open>frequency\<close>, the amplitude
  \<open>0.3\<close> and the fade time \<open>0.1\<close>) are parameters of the model so that the steps can
  be reasoned about in general, and \<open>create_test_audio_samples\<close> below is the one
  instance the script computes. The products under \<open>int\<close> are exact real products;
  the script's double products \<open>44100 * 5.0\<close> and \<open>0.1 * 44100\<close> are exactly 220500.0
  and 4410.0, so at the script's values nothing is lost.
  \<^verbatim>\<open>
  sample_rate = 44100
  duration = 5.0
  frequency = 440
  t = np.linspace(0, duration, int(sample_rate * duration))
  audio_data = 0.3 * np.sin(2 * np.pi * frequency * t)
  fade_samples = int(0.1 * sample_rate)
  audio_data[:fade_samples] *= np.linspace(0, 1, fade_samples)
  audio_data[-fade_samples:] *= np.linspace(1, 0, fade_samples)
  \<close>
\<close>

definition raw_sine :: "int \<Rightarrow> real \<Rightarrow> real \<Rightarrow> real \<Rightarrow> pyerror + real list" where
  "raw_sine sample_rate duration frequency amplitude =
     bind_err (linspace 0 duration (py_int (real_of_int sample_rate * duration)))
       (\<lambda>t. Inr (map (\<lambda>x. amplitude * sin (2 * pi * frequency * x)) t))"

definition apply_fades :: "real list \<Rightarrow> int \<Rightarrow> pyerror + real list" where
  "apply_fades audio_data fade_samples =
     bind_err (linspace 0 1 fade_samples) (\<lambda>ramp_in.
     bind_err (imul_slice audio_data 0 (slice_index (length audio_data) fade_samples) ramp_in)
       (\<lambda>audio_in.
     bind_err (linspace 1 0 fade_samples) (\<lambda>ramp_out.
       imul_slice audio_in (slice_index (length audio_in) (- fade_samples))
         (length audio_in) ramp_out)))"

definition synthesize :: "int \<Rightarrow> real \<Rightarrow> real \<Rightarrow> real \<Rightarrow> real \<Rightarrow> pyerror + real list" where
  "synthesize sample_rate duration frequency amplitude fade_seconds =
     bind_err (raw_sine sample_rate duration frequency amplitude) (\<lambda>audio_data.
       apply_fades audio_data (py_int (fade_seconds * real_of_int sample_rate)))"

text \<open>The waveform of the script itself: the parameters as the script fixes them.\<close>

definition create_test_audio_samples :: "pyerror + real list" where
  "create_test_audio_samples = synthesize 44100 5 440 (3 / 10) (1 / 10)"

text \<open>
  The constraints the specification puts on a parameter set. The script checks none of
  them; the predicate only serves as a hypothesis of theorems.
\<close>

definition valid_params :: "int \<Rightarrow> real \<Rightarrow> real \<Rightarrow> real \<Rightarrow> real \<Rightarrow> bool" where
  "valid_params sample_rate duration frequency amplitude fade_seconds \<longleftrightarrow>
     0 < sample_rate \<and> 0 < duration \<and> 0 < frequency \<and> 0 < amplitude \<and> amplitude \<le> 1 \<and>
     0 \<le> fade_seconds \<and> fade_seconds \<le> duration / 2"

text \<open>
  The specification's description of the fades, in its own words: a linear ramp of
  length \<open>len\<close> from \<open>a\<close> to \<open>b\<close>, endpoints inclusive (a ramp of length 1 is its
  start value, as \<open>np.linspace\<close> has it), and a waveform whose first \<open>f\<close> samples are
  multiplied pointwise by the ramp from 0 to 1, whose last \<open>f\<close> samples are multiplied
  pointwise by the ramp from 1 to 0, and whose other samples are left as they are.
\<close>

definition linear_ramp :: "real \<Rightarrow> real \<Rightarrow> nat \<Rightarrow> nat \<Rightarrow> real" where
  "linear_ramp a b len i = (if len = 1 then a else a + real i * (b - a) / real (len - 1))"

definition spec_fades :: "real list \<Rightarrow> nat \<Rightarrow> real list" where
  "spec_fades raw f =
     map (\<lambda>i. if i < f then raw ! i * linear_ramp 0 1 f i
              else if length raw - f \<le> i then raw ! i * linear_ramp 1 0 f (i - (length raw - f))
              else raw ! i)
       [0..<length raw]"

section \<open>Files and the encoder in \<open>create_test_audio.py\<close>\<close>

text \<open>
  The file system is a map from paths to contents and the console a list of messages
  (the script's texts are Japanese; a message is its constructor with the values
  interpolated into it). What the outside world decides is an \<open>env\<close>: whether
  \<open>mkdir\<close>, \<open>sf.write\<close> and the copy fail, the name \<open>NamedTemporaryFile\<close> picks, and how
  the \<open>ffmpeg\<close> call ends. Paths are written with \<open>/\<close>. \<open>unlink(missing_ok=True)\<close> is
  taken to succeed.
\<close>

type_synonym path = string

datatype file_content = Wav "real list" int | Blob "nat list"

datatype message =
    Created_webm path | File_size nat | Ffmpeg_error | Ffmpeg_missing | Created_wav path

datatype ffmpeg_outcome = Converted "nat list" | NonZeroExit | NotInstalled

record world =
  files :: "path \<rightharpoonup> file_content"
  stdout :: "message list"

record env =
  mkdir_fails :: bool
  temp_wav_path :: path
  sf_write_fails :: bool
  ffmpeg :: ffmpeg_outcome
  copy_fails :: bool

definition test_dir :: path where
  "test_dir = ''D:/work/voise-encoder/test-audio''"

definition webm_path :: path where
  "webm_path = test_dir @ ''/test_audio_440hz_5sec.webm''"

definition wav_path :: path where
  "wav_path = test_dir @ ''/test_audio_440hz_5sec.wav''"

definition print :: "message \<Rightarrow> world \<Rightarrow> world" where
  "print m w = w\<lparr>stdout := stdout w @ [m]\<rparr>"

definition write_file :: "path \<Rightarrow> file_content \<Rightarrow> world \<Rightarrow> world" where
  "write_file p c w = w\<lparr>files := (files w)(p \<mapsto> c)\<rparr>"

definition unlink :: "path \<Rightarrow> world \<Rightarrow> world" where
  "unlink p w = w\<lparr>files := (files w)(p := None)\<rparr>"

text \<open>\<open>st_size\<close>: a WAV file of 16-bit mono samples has a 44-byte header.\<close>

fun st_size :: "file_content \<Rightarrow> nat" where
  "st_size (Blob bs) = length bs"
| "st_size (Wav samples rate) = 44 + 2 * length samples"

text \<open>
  The body of the \<open>try\<close> (lines 42 to 52): \<open>subprocess.run(..., check=True)\<close> raises
  \<open>FileNotFoundError\<close> when there is no \<open>ffmpeg\<close> and \<open>CalledProcessError\<close> when it exits
  with a non-zero status; \<open>webm_path.stat()\<close> raises \<open>FileNotFoundError\<close> when the file
  is not there.
\<close>

definition try_body :: "env \<Rightarrow> world \<Rightarrow> (pyerror + path) \<times> world" where
  "try_body e w =
     (case ffmpeg e of
        NotInstalled \<Rightarrow> (Inl FileNotFoundError, w)
      | NonZeroExit \<Rightarrow> (Inl CalledProcessError, w)
      | Converted bytes \<Rightarrow>
          (let w1 = print (Created_webm webm_path) (write_file webm_path (Blob bytes) w) in
           case files w1 webm_path of
             None \<Rightarrow> (Inl FileNotFoundError, w1)
           | Some c \<Rightarrow> (Inr webm_path, print (File_size (st_size c)) w1)))"

text \<open>The \<open>except FileNotFoundError\<close> clause (lines 58 to 66): copy the WAV file.\<close>

definition copy_wav :: "env \<Rightarrow> world \<Rightarrow> (pyerror + path option) \<times> world" where
  "copy_wav e w =
     (let w1 = print Ffmpeg_missing w in
      case files w1 (temp_wav_path e) of
        None \<Rightarrow> (Inl FileNotFoundError, w1)
      | Some c \<Rightarrow>
          if copy_fails e then (Inl OSError, w1)
          else (Inr (Some wav_path), print (Created_wav wav_path) (write_file wav_path c w1)))"

text \<open>The \<open>try\<close> statement without its \<open>finally\<close>: the body, then the matching clause.\<close>

definition try_except :: "env \<Rightarrow> world \<Rightarrow> (pyerror + path option) \<times> world" where
  "try_except e w =
     (case try_body e w of
        (Inr p, w1) \<Rightarrow> (Inr (Some p), w1)
      | (Inl CalledProcessError, w1) \<Rightarrow> (Inr None, print Ffmpeg_error w1)
      | (Inl FileNotFoundError, w1) \<Rightarrow> copy_wav e w1
      | (Inl err, w1) \<Rightarrow> (Inl err, w1))"

text \<open>
  \<open>create_test_audio\<close>: the result is \<open>Inr (Some path)\<close> for a returned path, \<open>Inr None\<close>
  for Python's \<open>None\<close> and \<open>Inl err\<close> for an exception that leaves the function.
  \<open>NamedTemporaryFile(delete=False)\<close> creates the empty file before \<open>sf.write\<close> fills it.
\<close>

definition create_test_audio :: "env \<Rightarrow> world \<Rightarrow> (pyerror + path option) \<times> world" where
  "create_test_audio e w =
     (case create_test_audio_samples of
        Inl err \<Rightarrow> (Inl err, w)
      | Inr audio_data \<Rightarrow>
          if mkdir_fails e then (Inl OSError, w)
          else
            let w1 = write_file (temp_wav_path e) (Blob []) w in
            if sf_write_fails e then (Inl RuntimeError, w1)
            else
              let w2 = write_file (temp_wav_path e) (Wav audio_data 44100) w1;
                  (result, w3) = try_except e w2
              in (result, unlink (temp_wav_path e) w3))"

section \<open>\<open>change_config_version\<close> of \<open>test_medium_configs.py\<close>\<close>

text \<open>
  What the function could touch: the files, the module constant
  \<open>CURRENT_MEDIUM_CONFIG_VERSION\<close> and the console. The five printed lines are
  constructors carrying the interpolated values.
\<close>

datatype instruction =
    To_change int | Open_file path | Set_version int | Save_file | Restart_server

record config_state =
  config_files :: "path \<rightharpoonup> string"
  CURRENT_MEDIUM_CONFIG_VERSION :: int
  console :: "instruction list"

text \<open>\<open>os.path.dirname\<close> and \<open>os.path.join\<close> as \<open>posixpath\<close> defines them.\<close>

definition dirname :: "path \<Rightarrow> path" where
  "dirname p =
     (let head = rev (dropWhile (\<lambda>c. c \<noteq> CHR ''/'') (rev p)) in
      if head \<noteq> [] \<and> \<not> list_all (\<lambda>c. c = CHR ''/'') head
        then rev (dropWhile (\<lambda>c. c = CHR ''/'') (rev head))
      else head)"

definition join2 :: "path \<Rightarrow> path \<Rightarrow> path" where
  "join2 a b =
     (if b \<noteq> [] \<and> hd b = CHR ''/'' then b
      else if a = [] \<or> last a = CHR ''/'' then a @ b
      else a @ ''/'' @ b)"

definition path_join :: "path \<Rightarrow> path list \<Rightarrow> path" where
  "path_join a ps = foldl join2 a ps"

definition change_config_version :: "path \<Rightarrow> int \<Rightarrow> config_state \<Rightarrow> config_state" where
  "change_config_version file version s =
     (let config_file =
            path_join (dirname file) [''whisper-server'', ''src'', ''whisper_server'', ''config.py'']
      in s\<lparr>console := console s @
             [To_change version, Open_file config_file, Set_version version,
              Save_file, Restart_server]\<rparr>)"

text \<open>
  Concrete environments: \<open>ffmpeg\<close> exits with a non-zero status; \<open>sf.write\<close> raises;
  there is no \<open>ffmpeg\<close>. The world they start in has no files and an empty console.
\<close>

definition env_nonzero :: env where
  "env_nonzero = \<lparr>mkdir_fails = False, temp_wav_path = ''/tmp/tmp0a1b2c.wav'',
     sf_write_fails = False, ffmpeg = NonZeroExit, copy_fails = False\<rparr>"

definition env_write_error :: env where
  "env_write_error = \<lparr>mkdir_fails = False, temp_wav_path = ''/tmp/tmp0a1b2c.wav'',
     sf_write_fails = True, ffmpeg = Converted [26, 69, 223, 163], copy_fails = False\<rparr>"

definition env_missing :: env where
  "env_missing = \<lparr>mkdir_fails = False, temp_wav_path = ''/tmp/tmp0a1b2c.wav'',
     sf_write_fails = False, ffmpeg = NotInstalled, copy_fails = False\<rparr>"

definition empty_world :: world where
  "empty_world = \<lparr>files = Map.empty, stdout = []\<rparr>"

section \<open>Properties of the numpy operations\<close>

lemma py_int_nonneg: "0 \<le> x \<Longrightarrow> py_int x = \<lfloor>x\<rfloor>"
  by (simp add: py_int_def)

lemma linspace_Inr:
  "0 \<le> num \<Longrightarrow>
   linspace start stop num =
     Inr (map (\<lambda>i. start + real i * ((stop - start) / real_of_int (num - 1))) [0..<nat num])"
  by (simp add: linspace_def)

lemma linspace_neg: "num < 0 \<Longrightarrow> linspace start stop num = Inl ValueError"
  by (simp add: linspace_def)

lemma imul_slice_length:
  assumes "imul_slice a lo hi b = Inr w"
  shows "length w = length a"
  using assms
  by (auto simp: imul_slice_def Let_def min_def split: if_splits)

lemma imul_slice_window:
  assumes "lo + length b \<le> length a"
  shows "imul_slice a lo (lo + length b) b =
           Inr (map (\<lambda>i. if lo \<le> i \<and> i < lo + length b then a ! i * b ! (i - lo) else a ! i)
                  [0..<length a])"
proof -
  let ?view = "take (length b) (drop lo a)"
  have lv: "length ?view = length b" using assms by simp
  have "take lo a @ map2 (*) ?view b @ drop (lo + length b) a =
        map (\<lambda>i. if lo \<le> i \<and> i < lo + length b then a ! i * b ! (i - lo) else a ! i)
          [0..<length a]"
  proof (rule nth_equalityI)
    show "length (take lo a @ map2 (*) ?view b @ drop (lo + length b) a) =
          length (map (\<lambda>i. if lo \<le> i \<and> i < lo + length b then a ! i * b ! (i - lo) else a ! i)
            [0..<length a])"
      using assms by simp
  next
    fix i
    assume "i < length (take lo a @ map2 (*) ?view b @ drop (lo + length b) a)"
    then have i: "i < length a" using assms by simp
    show "(take lo a @ map2 (*) ?view b @ drop (lo + length b) a) ! i =
          map (\<lambda>i. if lo \<le> i \<and> i < lo + length b then a ! i * b ! (i - lo) else a ! i)
            [0..<length a] ! i"
      using i assms by (auto simp: nth_append min_def)
  qed
  then show ?thesis
    using lv by (simp add: imul_slice_def Let_def)
qed

lemma apply_fades_zero:
  "apply_fades a 0 = (if a = [] then Inr [] else Inl ValueError)"
  by (auto simp: apply_fades_def linspace_def bind_err_def imul_slice_def slice_index_def Let_def)

lemma linspace_ramp:
  "0 \<le> num \<Longrightarrow> linspace a b num = Inr (map (linear_ramp a b (nat num)) [0..<nat num])"
proof -
  assume n: "0 \<le> num"
  have "real_of_int (num - 1) = real (nat num - 1)" if "num \<noteq> 1" "num \<noteq> 0"
    using n that by (simp add: of_nat_diff)
  then have "map (\<lambda>i. a + real i * ((b - a) / real_of_int (num - 1))) [0..<nat num] =
        map (linear_ramp a b (nat num)) [0..<nat num]" if "num \<noteq> 1"
    using n that by (cases "num = 0") (auto simp: linear_ramp_def)
  then show ?thesis
    using n by (auto simp: linspace_def linear_ramp_def)
qed

lemma apply_fades_Inr:
  assumes f: "1 \<le> f" and le: "nat f \<le> length a"
  shows "apply_fades a f =
           Inr (map (\<lambda>i. if length a - nat f \<le> i
                   then (if i < nat f then a ! i * linear_ramp 0 1 (nat f) i else a ! i)
                         * linear_ramp 1 0 (nat f) (i - (length a - nat f))
                   else (if i < nat f then a ! i * linear_ramp 0 1 (nat f) i else a ! i))
                 [0..<length a])"
proof -
  let ?n = "length a"
  let ?up = "map (linear_ramp 0 1 (nat f)) [0..<nat f]"
  let ?down = "map (linear_ramp 1 0 (nat f)) [0..<nat f]"
  let ?a1 = "map (\<lambda>i. if i < nat f then a ! i * linear_ramp 0 1 (nat f) i else a ! i) [0..<?n]"
  have up: "linspace 0 1 f = Inr ?up" and down: "linspace 1 0 f = Inr ?down"
    using f by (simp_all add: linspace_ramp)
  have fi: "f \<le> int ?n"
    using f le by linarith
  have s1: "slice_index ?n f = nat f"
    using f fi by (simp add: slice_index_def min_def)
  have s2: "slice_index ?n (- f) = ?n - nat f"
    using f fi by (simp add: slice_index_def max_def nat_diff_distrib')
  have "imul_slice a 0 (0 + length ?up) ?up =
          Inr (map (\<lambda>i. if 0 \<le> i \<and> i < 0 + length ?up then a ! i * ?up ! (i - 0) else a ! i) [0..<?n])"
    by (rule imul_slice_window) (use le in simp)
  then have step1: "imul_slice a 0 (nat f) ?up = Inr ?a1"
    by simp
  have "imul_slice ?a1 (?n - nat f) ((?n - nat f) + length ?down) ?down =
          Inr (map (\<lambda>i. if ?n - nat f \<le> i \<and> i < (?n - nat f) + length ?down
                   then ?a1 ! i * ?down ! (i - (?n - nat f)) else ?a1 ! i) [0..<length ?a1])"
    by (rule imul_slice_window) (use le in simp)
  then have step2: "imul_slice ?a1 (?n - nat f) ?n ?down =
          Inr (map (\<lambda>i. if ?n - nat f \<le> i
                   then (if i < nat f then a ! i * linear_ramp 0 1 (nat f) i else a ! i)
                         * linear_ramp 1 0 (nat f) (i - (?n - nat f))
                   else (if i < nat f then a ! i * linear_ramp 0 1 (nat f) i else a ! i))
                 [0..<?n])"
    using le by (simp cong: map_cong)
  show ?thesis
    unfolding apply_fades_def up down bind_err_def
    using step1 step2 s1 s2 by simp
qed

lemma apply_fades_spec:
  assumes "1 \<le> f" and "2 * nat f \<le> length a"
  shows "apply_fades a f = Inr (spec_fades a (nat f))"
proof -
  have "nat f \<le> length a" using assms by simp
  from apply_fades_Inr [OF assms(1) this] show ?thesis
    using assms by (auto simp: spec_fades_def)
qed

lemma apply_fades_length: "apply_fades a f = Inr w \<Longrightarrow> length w = length a"
  by (auto simp: apply_fades_def bind_err_def split: sum.splits dest!: imul_slice_length)

lemma raw_sine_Inr:
  assumes "0 \<le> py_int (real_of_int sr * d)"
  shows "raw_sine sr d fq amp =
           Inr (map (\<lambda>i. amp * sin (2 * pi * fq *
                       linear_ramp 0 d (nat (py_int (real_of_int sr * d))) i))
                  [0..<nat (py_int (real_of_int sr * d))])"
  using assms by (simp add: raw_sine_def bind_err_def linspace_ramp comp_def)

lemma raw_sine_length:
  "raw_sine sr d fq amp = Inr raw \<Longrightarrow> length raw = nat (py_int (real_of_int sr * d))"
  by (cases "0 \<le> py_int (real_of_int sr * d)")
     (auto simp: raw_sine_Inr, auto simp: raw_sine_def bind_err_def linspace_def)

lemma raw_sine_bound:
  assumes "raw_sine sr d fq amp = Inr raw" and "0 \<le> amp" and "i < length raw"
  shows "\<bar>raw ! i\<bar> \<le> amp"
proof -
  have n: "0 \<le> py_int (real_of_int sr * d)"
    using assms(1) by (auto simp: raw_sine_def bind_err_def linspace_def split: if_splits)
  have "\<bar>amp * sin x\<bar> \<le> amp" for x
  proof -
    have "\<bar>amp * sin x\<bar> = amp * \<bar>sin x\<bar>" using assms(2) by (simp add: abs_mult)
    also have "\<dots> \<le> amp * 1" by (rule mult_left_mono) (use assms(2) in auto)
    finally show ?thesis by simp
  qed
  then show ?thesis
    using assms(1,3) raw_sine_Inr [OF n, of fq amp] by auto
qed

lemma valid_counts:
  assumes "valid_params sr d fq amp fs"
  shows "0 \<le> py_int (real_of_int sr * d)"
    and "0 \<le> py_int (fs * real_of_int sr)"
    and "2 * py_int (fs * real_of_int sr) \<le> py_int (real_of_int sr * d)"
    and "py_int (real_of_int sr * d) = \<lfloor>real_of_int sr * d\<rfloor>"
    and "py_int (fs * real_of_int sr) = \<lfloor>fs * real_of_int sr\<rfloor>"
proof -
  have sr: "0 < real_of_int sr" and d: "0 < d" and fs: "0 \<le> fs" "fs \<le> d / 2"
    using assms by (simp_all add: valid_params_def)
  have p1: "0 \<le> real_of_int sr * d" using sr d by simp
  have p2: "0 \<le> fs * real_of_int sr" using sr fs by simp
  show n: "py_int (real_of_int sr * d) = \<lfloor>real_of_int sr * d\<rfloor>"
    using p1 by (simp add: py_int_def)
  show f: "py_int (fs * real_of_int sr) = \<lfloor>fs * real_of_int sr\<rfloor>"
    using p2 by (simp add: py_int_def)
  show "0 \<le> py_int (real_of_int sr * d)" using p1 by (simp add: n)
  show "0 \<le> py_int (fs * real_of_int sr)" using p2 by (simp add: f)
  have "real_of_int (2 * \<lfloor>fs * real_of_int sr\<rfloor>) \<le> 2 * (fs * real_of_int sr)"
    by simp
  also have "\<dots> \<le> real_of_int sr * d"
  proof -
    have "fs * real_of_int sr \<le> (d / 2) * real_of_int sr"
      by (rule mult_right_mono) (use fs sr in auto)
    then show ?thesis by (simp add: mult.commute)
  qed
  finally have "2 * \<lfloor>fs * real_of_int sr\<rfloor> \<le> \<lfloor>real_of_int sr * d\<rfloor>"
    by (simp only: le_floor_iff)
  then show "2 * py_int (fs * real_of_int sr) \<le> py_int (real_of_int sr * d)"
    by (simp add: n f)
qed

lemma synthesize_faded:
  assumes n: "0 \<le> py_int (real_of_int sr * d)"
    and f: "1 \<le> py_int (fs * real_of_int sr)"
    and le: "2 * py_int (fs * real_of_int sr) \<le> py_int (real_of_int sr * d)"
    and raw: "raw_sine sr d fq amp = Inr raw"
  shows "synthesize sr d fq amp fs = Inr (spec_fades raw (nat (py_int (fs * real_of_int sr))))"
proof -
  have len: "length raw = nat (py_int (real_of_int sr * d))"
    using raw by (rule raw_sine_length)
  have "2 * nat (py_int (fs * real_of_int sr)) \<le> length raw"
    using f le len by linarith
  from apply_fades_spec [OF f this] show ?thesis
    by (simp add: synthesize_def raw bind_err_def)
qed

lemma synthesize_length:
  "synthesize sr d fq amp fs = Inr w \<Longrightarrow> length w = nat (py_int (real_of_int sr * d))"
  by (auto simp: synthesize_def bind_err_def split: sum.splits
           dest!: apply_fades_length raw_sine_length)

lemma synthesize_no_fade:
  assumes "py_int (fs * real_of_int sr) = 0"
  shows "synthesize sr d fq amp fs =
           (if py_int (real_of_int sr * d) < 0 then Inl ValueError
            else if py_int (real_of_int sr * d) = 0 then Inr []
            else Inl ValueError)"
proof (cases "0 \<le> py_int (real_of_int sr * d)")
  case True
  show ?thesis
    using True by (auto simp: synthesize_def assms raw_sine_Inr [OF True] bind_err_def apply_fades_zero)
next
  case False
  then show ?thesis
    by (simp add: synthesize_def raw_sine_def linspace_def bind_err_def)
qed

lemma linear_ramp_up_bounds:
  "i < f \<Longrightarrow> 0 \<le> linear_ramp 0 1 f i \<and> linear_ramp 0 1 f i \<le> 1"
  by (auto simp: linear_ramp_def divide_le_eq_1)

lemma linear_ramp_down_bounds:
  "i < f \<Longrightarrow> 0 \<le> linear_ramp 1 0 f i \<and> linear_ramp 1 0 f i \<le> 1"
  by (auto simp: linear_ramp_def divide_le_eq_1 field_simps)

lemma abs_scaled_le:
  fixes x r A :: real
  assumes "\<bar>x\<bar> \<le> A" and "0 \<le> r" and "r \<le> 1"
  shows "\<bar>x * r\<bar> \<le> A"
proof -
  have "\<bar>x * r\<bar> = \<bar>x\<bar> * r" using assms(2) by (simp add: abs_mult)
  also have "\<dots> \<le> \<bar>x\<bar> * 1" by (rule mult_left_mono) (use assms in auto)
  finally show ?thesis using assms(1) by simp
qed

lemma spec_fades_bound:
  assumes "\<forall>i<length raw. \<bar>raw ! i\<bar> \<le> A" and "f \<le> length raw" and "i < length raw"
  shows "\<bar>spec_fades raw f ! i\<bar> \<le> A"
proof -
  have r: "\<bar>raw ! i\<bar> \<le> A" using assms(1,3) by simp
  consider "i < f" | "\<not> i < f" "length raw - f \<le> i" | "\<not> i < f" "\<not> length raw - f \<le> i"
    by blast
  then show ?thesis
  proof cases
    case 1
    then show ?thesis
      using assms(3) abs_scaled_le [OF r] linear_ramp_up_bounds [of i f]
      by (simp add: spec_fades_def)
  next
    case 2
    have "i - (length raw - f) < f" using assms(2,3) 2 by linarith
    then show ?thesis
      using assms(3) 2 abs_scaled_le [OF r] linear_ramp_down_bounds [of "i - (length raw - f)" f]
      by (simp add: spec_fades_def)
  next
    case 3
    then show ?thesis using assms(3) r by (simp add: spec_fades_def)
  qed
qed

section \<open>The waveform of the script\<close>

lemma script_counts:
  "py_int (real_of_int 44100 * 5) = 220500" "py_int ((1 / 10) * real_of_int 44100) = 4410"
  by (simp_all add: py_int_def)

lemma script_samples:
  "\<exists>raw. raw_sine 44100 5 440 (3 / 10) = Inr raw \<and> length raw = 220500 \<and>
         (\<forall>i<length raw. \<bar>raw ! i\<bar> \<le> 3 / 10) \<and>
         create_test_audio_samples = Inr (spec_fades raw 4410)"
proof -
  have n: "0 \<le> py_int (real_of_int 44100 * 5)" using script_counts by simp
  obtain raw where raw: "raw_sine 44100 5 440 (3 / 10) = Inr raw"
    using raw_sine_Inr [OF n] by blast
  have len: "length raw = 220500"
    using raw_sine_length [OF raw] using script_counts by simp
  have b: "\<forall>i<length raw. \<bar>raw ! i\<bar> \<le> 3 / 10"
    using raw_sine_bound [OF raw] by simp
  have "synthesize 44100 5 440 (3 / 10) (1 / 10) =
          Inr (spec_fades raw (nat (py_int ((1 / 10) * real_of_int 44100))))"
    by (rule synthesize_faded [OF n _ _ raw]) (use script_counts in simp_all)
  then have "create_test_audio_samples = Inr (spec_fades raw 4410)"
    using script_counts by (simp add: create_test_audio_samples_def)
  with raw len b show ?thesis by blast
qed

text \<open>
  Claim C1. With the parameters the script fixes (sample rate 44100, 5 seconds, 440 Hz,
  amplitude 0.3, fades of 0.1 seconds) the synthesis succeeds with exactly 220500
  samples; the first and the last sample are 0 and no sample exceeds 0.3 in absolute
  value.
\<close>

theorem create_test_audio_waveform:
  "\<exists>w. create_test_audio_samples = Inr w \<and> length w = 220500 \<and> w ! 0 = 0 \<and> last w = 0 \<and>
       (\<forall>i<length w. \<bar>w ! i\<bar> \<le> 3 / 10)"
proof -
  obtain raw where raw: "length raw = 220500" "\<forall>i<length raw. \<bar>raw ! i\<bar> \<le> 3 / 10"
    and w: "create_test_audio_samples = Inr (spec_fades raw 4410)"
    using script_samples by blast
  let ?w = "spec_fades raw 4410"
  have len: "length ?w = 220500" using raw(1) by (simp add: spec_fades_def)
  have first: "?w ! 0 = 0"
    using raw(1) by (simp add: spec_fades_def linear_ramp_def)
  have "last ?w = ?w ! 220499"
    using len by (simp add: last_conv_nth length_0_conv [symmetric] del: length_0_conv)
  also have "\<dots> = 0"
    using raw(1) by (simp add: spec_fades_def linear_ramp_def)
  finally have lst: "last ?w = 0" .
  have "\<forall>i<length ?w. \<bar>?w ! i\<bar> \<le> 3 / 10"
    using spec_fades_bound [OF raw(2), of 4410] raw(1) len by simp
  with w len first lst show ?thesis by blast
qed

text \<open>The bound of claim C1 read off at the middle sample.\<close>

theorem create_test_audio_waveform_witness:
  "\<exists>w. create_test_audio_samples = Inr w \<and> length w = 220500 \<and> \<bar>w ! 110250\<bar> \<le> 3 / 10"
  using create_test_audio_waveform by auto




section \<open>The amplitude bound for every parameter set\<close>

lemma two_samples_scaled: "synthesize 11 (1 / 4) 1 (3 / 10) (1 / 10) = Inr [0, 3 / 10]"
  by (simp add: synthesize_def raw_sine_def apply_fades_def linspace_def bind_err_def
        imul_slice_def slice_index_def py_int_def Let_def eval_nat_numeral)

text \<open>
  Claim C4. For every valid parameter set, every sample of the synthesized waveform
  lies in \<open>[-amplitude, amplitude]\<close>.
\<close>

theorem synthesize_amplitude_bound:
  assumes v: "valid_params sr d fq amp fs"
    and w: "synthesize sr d fq amp fs = Inr w"
    and i: "i < length w"
  shows "\<bar>w ! i\<bar> \<le> amp"
proof -
  let ?n = "py_int (real_of_int sr * d)" and ?f = "py_int (fs * real_of_int sr)"
  note c = valid_counts [OF v]
  have amp: "0 \<le> amp" using v by (simp add: valid_params_def)
  obtain raw where raw: "raw_sine sr d fq amp = Inr raw"
    using raw_sine_Inr [OF c(1)] by blast
  have len: "length raw = nat ?n" by (rule raw_sine_length [OF raw])
  show ?thesis
  proof (cases "?f = 0")
    case True
    then have "w = []"
      using w synthesize_no_fade [OF True, of d fq amp] by (auto split: if_splits)
    with i show ?thesis by simp
  next
    case False
    then have f: "1 \<le> ?f" using c(2) by simp
    have weq: "w = spec_fades raw (nat ?f)"
      using synthesize_faded [OF c(1) f c(3) raw] w by simp
    have b: "\<forall>j<length raw. \<bar>raw ! j\<bar> \<le> amp"
      using raw_sine_bound [OF raw amp] by simp
    have fl: "nat ?f \<le> length raw" using len c(2,3) by linarith
    have "i < length raw" using i weq by (simp add: spec_fades_def)
    from spec_fades_bound [OF b fl this] show ?thesis by (simp add: weq)
  qed
qed

text \<open>
  Claim C4 at sample rate 11, a quarter of a second and amplitude 0.3.
\<close>

theorem synthesize_amplitude_bound_witness:
  "valid_params 11 (1 / 4) 1 (3 / 10) (1 / 10) \<and>
   synthesize 11 (1 / 4) 1 (3 / 10) (1 / 10) = Inr [0, 3 / 10] \<and>
   (1::nat) < length [0, 3 / 10 :: real] \<and> \<bar>[0, 3 / 10] ! 1\<bar> \<le> (3 / 10 :: real)"
proof -
  have v: "valid_params 11 (1 / 4) 1 (3 / 10) (1 / 10)" by (simp add: valid_params_def)
  have i: "(1::nat) < length [0, 3 / 10 :: real]" by simp
  show ?thesis
    using v two_samples_scaled synthesize_amplitude_bound [OF v two_samples_scaled i] by simp
qed

section \<open>The encoder call and the temporary file\<close>

lemma samples_returned: "\<exists>audio_data. create_test_audio_samples = Inr audio_data"
  using script_samples by blast

lemma try_except_nonzero:
  "ffmpeg e = NonZeroExit \<Longrightarrow> try_except e w = (Inr None, print Ffmpeg_error w)"
  by (simp add: try_except_def try_body_def)

lemma try_except_missing:
  "ffmpeg e = NotInstalled \<Longrightarrow> try_except e w = copy_wav e w"
  by (simp add: try_except_def try_body_def)

lemma try_except_converted:
  "ffmpeg e = Converted bytes \<Longrightarrow>
   try_except e w =
     (Inr (Some webm_path),
      print (File_size (length bytes))
        (print (Created_webm webm_path) (write_file webm_path (Blob bytes) w)))"
  by (simp add: try_except_def try_body_def Let_def print_def write_file_def)

lemma create_test_audio_written:
  assumes "create_test_audio_samples = Inr audio_data"
    and "\<not> mkdir_fails e" and "\<not> sf_write_fails e"
  shows "create_test_audio e w =
           (fst (try_except e (write_file (temp_wav_path e) (Wav audio_data 44100)
                   (write_file (temp_wav_path e) (Blob []) w))),
            unlink (temp_wav_path e)
              (snd (try_except e (write_file (temp_wav_path e) (Wav audio_data 44100)
                   (write_file (temp_wav_path e) (Blob []) w)))))"
  using assms(2,3) by (simp add: create_test_audio_def assms(1) Let_def case_prod_beta)

text \<open>
  Once the temporary file has been written, every way out of the \<open>try\<close> statement
  passes the \<open>finally\<close> clause, and the temporary file is gone.
\<close>

lemma temp_removed_after_write:
  assumes "\<not> mkdir_fails e" and "\<not> sf_write_fails e"
  shows "files (snd (create_test_audio e w)) (temp_wav_path e) = None"
proof -
  obtain audio_data where a: "create_test_audio_samples = Inr audio_data"
    using samples_returned by blast
  show ?thesis
    by (simp add: create_test_audio_written [OF a assms] unlink_def)
qed

text \<open>
  Claim C2, as amended. After a successful write of the temporary file: when
  \<open>ffmpeg\<close> exits with a non-zero status the function prints the conversion error
  and returns \<open>None\<close>; when there is
  no \<open>ffmpeg\<close> and the copy succeeds it returns the path of the WAV copy in the test
  directory, which then holds the synthesized samples at 44100 Hz. Neither case raises.
\<close>

theorem encoder_failure_result:
  assumes "\<not> mkdir_fails e" and "\<not> sf_write_fails e"
  shows "(ffmpeg e = NonZeroExit \<longrightarrow>
            fst (create_test_audio e w) = Inr None \<and>
            stdout (snd (create_test_audio e w)) = stdout w @ [Ffmpeg_error]) \<and>
         (ffmpeg e = NotInstalled \<and> \<not> copy_fails e \<longrightarrow>
            fst (create_test_audio e w) = Inr (Some wav_path) \<and>
            (temp_wav_path e \<noteq> wav_path \<longrightarrow>
               (\<exists>audio_data. create_test_audio_samples = Inr audio_data \<and>
                  files (snd (create_test_audio e w)) wav_path = Some (Wav audio_data 44100))))"
proof -
  obtain audio_data where a: "create_test_audio_samples = Inr audio_data"
    using samples_returned by blast
  note c = create_test_audio_written [OF a assms]
  have "fst (create_test_audio e w) = Inr None" if "ffmpeg e = NonZeroExit"
    by (simp add: c try_except_nonzero [OF that])
  moreover have "stdout (snd (create_test_audio e w)) = stdout w @ [Ffmpeg_error]"
    if "ffmpeg e = NonZeroExit"
    by (simp add: c try_except_nonzero [OF that] print_def write_file_def unlink_def)
  moreover have "fst (create_test_audio e w) = Inr (Some wav_path)"
    if "ffmpeg e = NotInstalled" "\<not> copy_fails e"
    using that(2)
    by (simp add: c try_except_missing [OF that(1)] copy_wav_def Let_def print_def write_file_def)
  moreover have "files (snd (create_test_audio e w)) wav_path = Some (Wav audio_data 44100)"
    if "ffmpeg e = NotInstalled" "\<not> copy_fails e" "temp_wav_path e \<noteq> wav_path"
    using that(2,3)
    by (simp add: c try_except_missing [OF that(1)] copy_wav_def Let_def print_def
          write_file_def unlink_def)
  ultimately show ?thesis using a by blast
qed

text \<open>
  The amended claim C2 in the two concrete environments.
\<close>

theorem encoder_failure_result_witness:
  "fst (create_test_audio env_nonzero empty_world) = Inr None \<and>
   stdout (snd (create_test_audio env_nonzero empty_world)) = stdout empty_world @ [Ffmpeg_error] \<and>
   fst (create_test_audio env_missing empty_world) = Inr (Some wav_path) \<and>
   (\<exists>audio_data. create_test_audio_samples = Inr audio_data \<and>
      files (snd (create_test_audio env_missing empty_world)) wav_path =
        Some (Wav audio_data 44100))"
proof -
  have n: "\<not> mkdir_fails env_nonzero" "\<not> sf_write_fails env_nonzero"
    "ffmpeg env_nonzero = NonZeroExit"
    by (simp_all add: env_nonzero_def)
  have m: "\<not> mkdir_fails env_missing" "\<not> sf_write_fails env_missing"
    "ffmpeg env_missing = NotInstalled \<and> \<not> copy_fails env_missing"
    "temp_wav_path env_missing \<noteq> wav_path"
    by (simp_all add: env_missing_def wav_path_def test_dir_def)
  show ?thesis
    using encoder_failure_result [OF n(1,2), of empty_world]
      encoder_failure_result [OF m(1,2), of empty_world] n(3) m(3,4)
    by blast
qed

text \<open>
  Claim C2 as stated fails when \<open>ffmpeg\<close> exits with a non-zero status: the caller
  receives \<open>None\<close>, only the error message is printed, and no file is left.
\<close>

theorem encoder_nonzero_exit_counterexample:
  "fst (create_test_audio env_nonzero empty_world) = Inr None \<and>
   stdout (snd (create_test_audio env_nonzero empty_world)) = [Ffmpeg_error] \<and>
   files (snd (create_test_audio env_nonzero empty_world)) = Map.empty"
proof -
  obtain audio_data where a: "create_test_audio_samples = Inr audio_data"
    using samples_returned by blast
  have e: "\<not> mkdir_fails env_nonzero" "\<not> sf_write_fails env_nonzero"
    "ffmpeg env_nonzero = NonZeroExit"
    by (simp_all add: env_nonzero_def)
  have "create_test_audio env_nonzero empty_world =
          (Inr None,
           unlink (temp_wav_path env_nonzero)
             (print Ffmpeg_error
               (write_file (temp_wav_path env_nonzero) (Wav audio_data 44100)
                 (write_file (temp_wav_path env_nonzero) (Blob []) empty_world))))"
    by (simp only: create_test_audio_written [OF a e(1,2)] try_except_nonzero [OF e(3)]
          fst_conv snd_conv)
  then show ?thesis
    by (simp add: print_def write_file_def unlink_def empty_world_def env_nonzero_def)
qed

text \<open>
  Claim C7 at an environment in which \<open>sf.write\<close> raises: the exception leaves the
  function before the \<open>try\<close> statement is entered, and the file that
  \<open>NamedTemporaryFile(delete=False)\<close> created, absent before the call, is still
  there after it.
\<close>

theorem temp_file_left_behind:
  "files empty_world ''/tmp/tmp0a1b2c.wav'' = None \<and>
   fst (create_test_audio env_write_error empty_world) = Inl RuntimeError \<and>
   files (snd (create_test_audio env_write_error empty_world)) ''/tmp/tmp0a1b2c.wav'' =
     Some (Blob [])"
proof -
  obtain audio_data where a: "create_test_audio_samples = Inr audio_data"
    using samples_returned by blast
  show ?thesis
    by (simp add: create_test_audio_def a env_write_error_def empty_world_def write_file_def)
qed

section \<open>The frame of \<open>change_config_version\<close>\<close>

text \<open>
  Claim C10. \<open>change_config_version\<close> writes no file and leaves
  \<open>CURRENT_MEDIUM_CONFIG_VERSION\<close> as it is, for every version; it only prints the five
  lines that describe the manual edit.
\<close>

theorem change_config_version_frame:
  "config_files (change_config_version file version s) = config_files s \<and>
   CURRENT_MEDIUM_CONFIG_VERSION (change_config_version file version s) =
     CURRENT_MEDIUM_CONFIG_VERSION s \<and>
   console (change_config_version file version s) =
     console s @
       [To_change version,
        Open_file (path_join (dirname file)
          [''whisper-server'', ''src'', ''whisper_server'', ''config.py'']),
        Set_version version, Save_file, Restart_server]"
  by (simp add: change_config_version_def Let_def)

end
